theory Spec2Isabelle
  imports Main "HOL-Library.AList"
begin

section \<open>Strings: the Python string methods the generators use\<close>

text \<open>
  The program is \<^verbatim>\<open>src/archpython/main.py\<close>. Strings are \<^typ>\<open>string\<close>; the model
  covers ASCII text: \<^verbatim>\<open>str.lower\<close>, \<^verbatim>\<open>str.upper\<close> act on the 26 ASCII letters and
  leave every other character as it is.
\<close>

definition ascii_lowercase :: string where
  "ascii_lowercase = ''abcdefghijklmnopqrstuvwxyz''"

definition ascii_uppercase :: string where
  "ascii_uppercase = ''ABCDEFGHIJKLMNOPQRSTUVWXYZ''"

definition char_upper :: "char \<Rightarrow> char" where
  "char_upper c =
     (case map_of (zip ascii_lowercase ascii_uppercase) c of Some u \<Rightarrow> u | None \<Rightarrow> c)"

definition char_lower :: "char \<Rightarrow> char" where
  "char_lower c =
     (case map_of (zip ascii_uppercase ascii_lowercase) c of Some l \<Rightarrow> l | None \<Rightarrow> c)"

text \<open>\<^verbatim>\<open>s.lower()\<close>\<close>

definition py_lower :: "string \<Rightarrow> string" where
  "py_lower s = map char_lower s"

text \<open>\<^verbatim>\<open>s.capitalize()\<close>: the first character upper-cased, all the others lower-cased.\<close>

fun py_capitalize :: "string \<Rightarrow> string" where
  "py_capitalize [] = []"
| "py_capitalize (c # cs) = char_upper c # map char_lower cs"

text \<open>
  \<^verbatim>\<open>s.split(sep)\<close> for a one-character separator: the empty string gives one empty
  token, and two adjacent separators give an empty token between them.
\<close>

fun split_on :: "char \<Rightarrow> string \<Rightarrow> string list" where
  "split_on sep [] = [[]]"
| "split_on sep (c # cs) =
     (if c = sep then [] # split_on sep cs
      else (case split_on sep cs of
              [] \<Rightarrow> [[c]]
            | w # ws \<Rightarrow> (c # w) # ws))"

text \<open>
  \<^verbatim>\<open>s.replace(old, new)\<close>: every non-overlapping occurrence of \<open>old\<close>, found from the
  left, is replaced. With an empty \<open>old\<close> Python puts \<open>new\<close> before every character and at
  the end.
\<close>

function str_replace :: "string \<Rightarrow> string \<Rightarrow> string \<Rightarrow> string" where
  "str_replace old new s =
     (if old = [] then new @ concat (map (\<lambda>c. c # new) s)
      else if s = [] then []
      else if take (length old) s = old
        then new @ str_replace old new (drop (length old) s)
      else hd s # str_replace old new (tl s))"
  by pat_completeness auto
termination
  by (relation "measure (\<lambda>(old, new, s). length s)") auto

declare str_replace.simps [simp del]

text \<open>
  The expression \<^verbatim>\<open>"".join(word.capitalize() for word in s.split("_"))\<close>, which the
  source writes out four times (lines 60, 63, 105 and 108).
\<close>

definition to_pascal :: "string \<Rightarrow> string" where
  "to_pascal s = concat (map py_capitalize (split_on CHR ''_'' s))"

section \<open>Paths\<close>

text \<open>
  A \<^verbatim>\<open>pathlib.Path\<close> is the list of its parts, as \<^verbatim>\<open>PurePosixPath.parts\<close> gives them:
  an absolute path starts with the part \<open>''/''\<close>, the current directory is the empty list.
  Parsing a string drops empty and \<^verbatim>\<open>.\<close> components; \<^verbatim>\<open>..\<close> is kept as a name. (The
  special root of exactly two leading slashes is read as the ordinary root.)
\<close>

type_synonym path = "string list"

definition is_absolute :: "string \<Rightarrow> bool" where
  "is_absolute s = (case s of [] \<Rightarrow> False | c # _ \<Rightarrow> c = CHR ''/'')"

definition Path :: "string \<Rightarrow> path" where
  "Path s = (if is_absolute s then [''/''] else []) @
            filter (\<lambda>w. w \<noteq> [] \<and> w \<noteq> ''.'') (split_on CHR ''/'' s)"

text \<open>\<^verbatim>\<open>p / s\<close>: an absolute right operand replaces the left one.\<close>

definition pjoin :: "path \<Rightarrow> string \<Rightarrow> path" where
  "pjoin p s = (if is_absolute s then Path s else p @ Path s)"

text \<open>\<^verbatim>\<open>p.parent\<close>: the root and the current directory are their own parents.\<close>

definition parent :: "path \<Rightarrow> path" where
  "parent p = (if p = [] \<or> p = [''/''] then p else butlast p)"

text \<open>\<^verbatim>\<open>p.name\<close>: the last part; empty for the root and the current directory.\<close>

definition path_name :: "path \<Rightarrow> string" where
  "path_name p = (if p = [] \<or> p = [''/''] then [] else last p)"

section \<open>Configuration and the two generators' constructors\<close>

text \<open>
  \<^verbatim>\<open>ServiceConfig\<close> (lines 15-20). The fields \<^verbatim>\<open>name\<close>, \<^verbatim>\<open>module\<close>, \<^verbatim>\<open>type\<close>,
  \<^verbatim>\<open>create_dtos\<close> carry the prefix \<open>cfg_\<close>; \<^verbatim>\<open>type\<close> is a Python \<^verbatim>\<open>str\<close>.
\<close>

record ServiceConfig =
  cfg_name :: string
  cfg_module :: string
  cfg_type :: string
  cfg_create_dtos :: bool

text \<open>The attributes \<^verbatim>\<open>DTOGenerator.__init__\<close> sets (lines 47-65), prefixed \<open>dto_\<close>.\<close>

record DTOGenerator =
  dto_module_path :: path
  dto_service_name :: string
  dto_service_type :: string
  dto_dtos_dir :: path
  dto_request_class_name :: string
  dto_response_class_name :: string

definition DTOGenerator_init :: "path \<Rightarrow> string \<Rightarrow> string \<Rightarrow> DTOGenerator" where
  "DTOGenerator_init module_path service_name service_type =
     \<lparr> dto_module_path = module_path,
       dto_service_name = py_lower service_name,
       dto_service_type = service_type,
       dto_dtos_dir =
         (if service_type = ''shared''
          then pjoin (pjoin (pjoin module_path ''services'') (py_lower service_name)) ''dtos''
          else pjoin (pjoin module_path ''dtos'') service_name),
       dto_request_class_name = to_pascal (service_name @ ''_request_dto''),
       dto_response_class_name = to_pascal (service_name @ ''_response_dto'') \<rparr>"

text \<open>
  The attributes \<^verbatim>\<open>ServiceGenerator.__init__\<close> sets (lines 92-113), prefixed \<open>svc_\<close>.
  The Jinja environment is not an attribute here: the templates are a parameter of
  \<open>get_template_content\<close> below.
\<close>

record ServiceGenerator =
  svc_module_path :: path
  svc_config :: ServiceConfig
  svc_service_name :: string
  svc_service_dir :: path
  svc_service_class_name :: string
  svc_adapter_class_name :: string

definition ServiceGenerator_init :: "path \<Rightarrow> ServiceConfig \<Rightarrow> ServiceGenerator" where
  "ServiceGenerator_init module_path config =
     \<lparr> svc_module_path = module_path,
       svc_config = config,
       svc_service_name = py_lower (cfg_name config),
       svc_service_dir =
         (if cfg_type config = ''shared''
          then pjoin (pjoin module_path ''services'') (py_lower (cfg_name config))
          else pjoin (pjoin module_path ''services'') (cfg_type config)),
       svc_service_class_name = to_pascal (cfg_name config) @ ''Service'',
       svc_adapter_class_name = to_pascal (cfg_type config) @ ''Service'' \<rparr>"

section \<open>Template rendering\<close>

text \<open>
  The keyword arguments of \<^verbatim>\<open>template.render\<close> (lines 121-125). The template files
  are not part of the sources at hand, so the Jinja environment is a parameter: a map
  from a template's file name to the function that renders it; a name it does not have
  is Jinja's \<^verbatim>\<open>TemplateNotFound\<close>.
\<close>

record template_args =
  service_name :: string
  request_dto :: string
  response_dto :: string

type_synonym environment = "string \<rightharpoonup> (template_args \<Rightarrow> string)"

definition template_name :: "ServiceGenerator \<Rightarrow> string" where
  "template_name g = cfg_type (svc_config g) @ ''_service.j2''"

definition render_args :: "ServiceGenerator \<Rightarrow> string \<Rightarrow> string \<Rightarrow> template_args" where
  "render_args g request_class response_class =
     \<lparr> service_name = str_replace ''Service'' [] (svc_service_class_name g),
       request_dto = (if request_class \<noteq> [] then request_class else ''None''),
       response_dto = (if response_class \<noteq> [] then response_class else ''None'') \<rparr>"

section \<open>The filesystem\<close>

text \<open>
  The filesystem is the program's only state. It is an association list from paths to
  nodes, in the order in which the system enumerates them (the order \<^verbatim>\<open>iterdir\<close>
  yields); the first entry of a path is the node there. The current directory and the
  root always exist. Symbolic links, permissions and the resolution of \<^verbatim>\<open>..\<close> are
  outside the model. A filesystem is a tree, so an existing path has a directory at each
  of its ancestors; on such states \<open>os_mkdir\<close> below, which looks at the path itself
  first and at its parent second, raises what the system call raises.
\<close>

datatype node = File string | Dir

type_synonym filesystem = "(path \<times> node) list"

definition lookup :: "filesystem \<Rightarrow> path \<Rightarrow> node option" where
  "lookup fs p = (if p = [] \<or> p = [''/''] then Some Dir else map_of fs p)"

text \<open>\<^verbatim>\<open>p.exists()\<close> and \<^verbatim>\<open>p.is_dir()\<close>\<close>

definition path_exists :: "filesystem \<Rightarrow> path \<Rightarrow> bool" where
  "path_exists fs p = (lookup fs p \<noteq> None)"

definition is_dir :: "filesystem \<Rightarrow> path \<Rightarrow> bool" where
  "is_dir fs p = (lookup fs p = Some Dir)"

text \<open>\<^verbatim>\<open>p.iterdir()\<close> on a directory: its immediate children, in enumeration order.\<close>

definition iterdir :: "filesystem \<Rightarrow> path \<Rightarrow> path list" where
  "iterdir fs p =
     filter (\<lambda>q. q \<noteq> [] \<and> q \<noteq> [''/''] \<and> butlast q = p) (map fst fs)"

subsection \<open>Exceptions\<close>

text \<open>
  An exception is its class and its message. The messages of the source are Portuguese
  sentences that start with a cross mark; each is a constructor here:
  \<^item> \<open>MsgModulesDirNotFound\<close>: line 29, the directory src/modules was not found;
  \<^item> \<open>MsgNoModuleFound\<close>: line 38, no module found in src/modules;
  \<^item> \<open>MsgDtosAlreadyExist n\<close>: line 75, DTOs already exist for \<open>n\<close>;
  \<^item> \<open>MsgServiceAlreadyExists n\<close>: line 135, a service \<open>n\<close>\<^verbatim>\<open>_service.py\<close> already exists;
  \<^item> \<open>MsgLibrary\<close>: the text of an exception raised by the operating system or Jinja.
\<close>

datatype exc_class =
  FileNotFoundError | FileExistsError | NotADirectoryError | IsADirectoryError
  | ValueError | TemplateNotFound

datatype message =
  MsgModulesDirNotFound | MsgNoModuleFound
  | MsgDtosAlreadyExist string | MsgServiceAlreadyExists string | MsgLibrary

type_synonym exc = "exc_class \<times> message"

subsection \<open>Creating directories and writing files\<close>

text \<open>\<^verbatim>\<open>os.mkdir(p)\<close>\<close>

definition os_mkdir :: "filesystem \<Rightarrow> path \<Rightarrow> exc_class + filesystem" where
  "os_mkdir fs p =
     (if path_exists fs p then Inl FileExistsError
      else if is_dir fs (parent p) then Inr (AList.update p Dir fs)
      else if path_exists fs (parent p) then Inl NotADirectoryError
      else Inl FileNotFoundError)"

text \<open>
  \<^verbatim>\<open>p.mkdir(parents=False, exist_ok=True)\<close>, as pathlib writes it: a missing parent is
  raised; any other error is swallowed when the path is a directory.
\<close>

definition mkdir_exist_ok :: "filesystem \<Rightarrow> path \<Rightarrow> (exc + unit) \<times> filesystem" where
  "mkdir_exist_ok fs p =
     (case os_mkdir fs p of
        Inr fs' \<Rightarrow> (Inr (), fs')
      | Inl e \<Rightarrow>
          if e = FileNotFoundError then (Inl (e, MsgLibrary), fs)
          else if is_dir fs p then (Inr (), fs)
          else (Inl (e, MsgLibrary), fs))"

text \<open>
  \<^verbatim>\<open>p.mkdir(parents=True, exist_ok=True)\<close>, the only form the source calls (lines 68,
  130, 246): when the parent is missing, the parent is made in the same way and the
  directory is then made without \<^verbatim>\<open>parents\<close>.
\<close>

function mkdir_parents :: "filesystem \<Rightarrow> path \<Rightarrow> (exc + unit) \<times> filesystem" where
  "mkdir_parents fs p =
     (case os_mkdir fs p of
        Inr fs' \<Rightarrow> (Inr (), fs')
      | Inl e \<Rightarrow>
          if e = FileNotFoundError then
            (if parent p = p then (Inl (e, MsgLibrary), fs)
             else (case mkdir_parents fs (parent p) of
                     (Inl e', fs1) \<Rightarrow> (Inl e', fs1)
                   | (Inr u, fs1) \<Rightarrow> mkdir_exist_ok fs1 p))
          else if is_dir fs p then (Inr (), fs)
          else (Inl (e, MsgLibrary), fs))"
  by pat_completeness auto
termination
  by (relation "measure (\<lambda>(fs, p). length p)") (auto simp: parent_def split: if_splits)

declare mkdir_parents.simps [simp del]

text \<open>
  \<^verbatim>\<open>p.write_text(s)\<close>: the file is created or replaced; the path must not be a
  directory and its parent must be one.
\<close>

definition write_text :: "filesystem \<Rightarrow> path \<Rightarrow> string \<Rightarrow> (exc + unit) \<times> filesystem" where
  "write_text fs p s =
     (if is_dir fs p then (Inl (IsADirectoryError, MsgLibrary), fs)
      else if is_dir fs (parent p) then (Inr (), AList.update p (File s) fs)
      else if path_exists fs (parent p) then (Inl (NotADirectoryError, MsgLibrary), fs)
      else (Inl (FileNotFoundError, MsgLibrary), fs))"

section \<open>ModuleManager\<close>

record ModuleManager =
  base_path :: path

text \<open>\<^verbatim>\<open>ModuleManager()\<close>, with the default argument of line 24.\<close>

definition ModuleManager_init :: ModuleManager where
  "ModuleManager_init = \<lparr> base_path = Path ''src/modules'' \<rparr>"

text \<open>
  \<^verbatim>\<open>get_available_modules\<close> (lines 27-40) only reads the filesystem. \<^verbatim>\<open>iterdir\<close> on a
  path that exists and is no directory raises \<^verbatim>\<open>NotADirectoryError\<close>.
\<close>

definition get_available_modules :: "ModuleManager \<Rightarrow> filesystem \<Rightarrow> exc + string list" where
  "get_available_modules m fs =
     (if \<not> path_exists fs (base_path m) then Inl (FileNotFoundError, MsgModulesDirNotFound)
      else if \<not> is_dir fs (base_path m) then Inl (NotADirectoryError, MsgLibrary)
      else let modules =
                 map path_name
                   (filter (\<lambda>d. is_dir fs d \<and> path_name d \<noteq> ''shared'')
                      (iterdir fs (base_path m)))
           in if modules = [] then Inl (FileNotFoundError, MsgNoModuleFound)
              else Inr modules)"

definition get_module_path :: "ModuleManager \<Rightarrow> string \<Rightarrow> path" where
  "get_module_path m module_name = pjoin (base_path m) module_name"

section \<open>DTOGenerator.generate\<close>

definition request_file :: "DTOGenerator \<Rightarrow> path" where
  "request_file g = pjoin (dto_dtos_dir g) (dto_service_name g @ ''_request_dto.py'')"

definition response_file :: "DTOGenerator \<Rightarrow> path" where
  "response_file g = pjoin (dto_dtos_dir g) (dto_service_name g @ ''_response_dto.py'')"

definition init_file :: "DTOGenerator \<Rightarrow> path" where
  "init_file g = pjoin (dto_dtos_dir g) ''__init__.py''"

text \<open>The text of a class stub (lines 77, 78) and of \<^verbatim>\<open>__init__.py\<close> (lines 81-85).\<close>

definition class_stub :: "string \<Rightarrow> string" where
  "class_stub class_name = ''class '' @ class_name @ '':\<newline>    pass\<newline>''"

definition init_content :: "DTOGenerator \<Rightarrow> string" where
  "init_content g =
     ''from .'' @ dto_service_name g @ ''_request_dto import '' @ dto_request_class_name g
       @ ''\<newline>''
     @ ''from .'' @ dto_service_name g @ ''_response_dto import '' @ dto_response_class_name g
       @ ''\<newline>\<newline>''
     @ ''__all__ = ['' @ [CHR 0x27] @ dto_request_class_name g @ [CHR 0x27] @ '', ''
       @ [CHR 0x27] @ dto_response_class_name g @ [CHR 0x27] @ '']\<newline>''"

text \<open>
  \<^verbatim>\<open>DTOGenerator.generate\<close> (lines 67-88). The result is the raised exception or the pair
  of class names, together with the filesystem as the call leaves it.
\<close>

definition DTOGenerator_generate ::
  "DTOGenerator \<Rightarrow> filesystem \<Rightarrow> (exc + string \<times> string) \<times> filesystem" where
  "DTOGenerator_generate g fs =
     (case mkdir_parents fs (dto_dtos_dir g) of
        (Inl e, fs1) \<Rightarrow> (Inl e, fs1)
      | (Inr u, fs1) \<Rightarrow>
          if path_exists fs1 (request_file g) \<or> path_exists fs1 (response_file g)
          then (Inl (FileExistsError, MsgDtosAlreadyExist (dto_service_name g)), fs1)
          else
            (case write_text fs1 (request_file g) (class_stub (dto_request_class_name g)) of
               (Inl e, fs2) \<Rightarrow> (Inl e, fs2)
             | (Inr u, fs2) \<Rightarrow>
                 (case write_text fs2 (response_file g)
                         (class_stub (dto_response_class_name g)) of
                    (Inl e, fs3) \<Rightarrow> (Inl e, fs3)
                  | (Inr u, fs3) \<Rightarrow>
                      (case write_text fs3 (init_file g) (init_content g) of
                         (Inl e, fs4) \<Rightarrow> (Inl e, fs4)
                       | (Inr u, fs4) \<Rightarrow>
                           (Inr (dto_request_class_name g, dto_response_class_name g),
                            fs4)))))"

section \<open>ServiceGenerator.generate\<close>

text \<open>\<^verbatim>\<open>_get_template_content\<close> (lines 115-127)\<close>

definition get_template_content ::
  "environment \<Rightarrow> ServiceGenerator \<Rightarrow> string \<Rightarrow> string \<Rightarrow> exc + string" where
  "get_template_content env g request_class response_class =
     (case env (template_name g) of
        None \<Rightarrow> Inl (TemplateNotFound, MsgLibrary)
      | Some template \<Rightarrow> Inr (template (render_args g request_class response_class)))"

definition service_file :: "ServiceGenerator \<Rightarrow> path" where
  "service_file g = pjoin (svc_service_dir g) (svc_service_name g @ ''_service.py'')"

text \<open>The import statement of lines 145 and 150, without the two line ends after it.\<close>

definition import_line :: "ServiceGenerator \<Rightarrow> string \<Rightarrow> string \<Rightarrow> string" where
  "import_line g request_class response_class =
     (if cfg_type (svc_config g) = ''shared''
      then ''from src.modules.'' @ cfg_module (svc_config g) @ ''.services.''
             @ svc_service_name g @ ''.dtos import '' @ request_class @ '', '' @ response_class
      else ''from src.modules.'' @ cfg_module (svc_config g) @ ''.dtos.''
             @ svc_service_name g @ '' import '' @ request_class @ '', '' @ response_class)"

text \<open>\<^verbatim>\<open>ServiceGenerator.generate\<close> (lines 129-154)\<close>

definition ServiceGenerator_generate ::
  "environment \<Rightarrow> ServiceGenerator \<Rightarrow> string \<Rightarrow> string \<Rightarrow> filesystem
     \<Rightarrow> (exc + unit) \<times> filesystem" where
  "ServiceGenerator_generate env g request_class response_class fs =
     (case mkdir_parents fs (svc_service_dir g) of
        (Inl e, fs1) \<Rightarrow> (Inl e, fs1)
      | (Inr u, fs1) \<Rightarrow>
          if path_exists fs1 (service_file g)
          then (Inl (FileExistsError, MsgServiceAlreadyExists (svc_service_name g)), fs1)
          else
            (case get_template_content env g request_class response_class of
               Inl e \<Rightarrow> (Inl e, fs1)
             | Inr service_content \<Rightarrow>
                 write_text fs1 (service_file g)
                   (if cfg_create_dtos (svc_config g)
                    then import_line g request_class response_class @ ''\<newline>\<newline>''
                           @ service_content
                    else service_content)))"

section \<open>The command generate_service\<close>

text \<open>What the command prints: lines 263, 267 and 272.\<close>

datatype printed = DtosCreated path | ServiceCreated path | ErrorPrinted exc

text \<open>
  The body of the \<^verbatim>\<open>try\<close> block after the configuration is there (lines 254-269):
  the raised exception if any, what was printed, and the filesystem.
\<close>

definition generate_steps ::
  "environment \<Rightarrow> ServiceConfig \<Rightarrow> filesystem \<Rightarrow> ((exc + unit) \<times> printed list) \<times> filesystem" where
  "generate_steps env config fs =
     (let module_path = get_module_path ModuleManager_init (cfg_module config);
          dto_generator = DTOGenerator_init module_path (cfg_name config) (cfg_type config);
          service_generator = ServiceGenerator_init module_path config
      in case (if cfg_create_dtos config
               then (case DTOGenerator_generate dto_generator fs of
                       (Inl e, fs1) \<Rightarrow> (Inl e, fs1)
                     | (Inr (request_class, response_class), fs1) \<Rightarrow>
                         (Inr (request_class, response_class,
                               [DtosCreated (dto_dtos_dir dto_generator)]), fs1))
               else (Inr ([], [], []), fs)) of
           (Inl e, fs1) \<Rightarrow> ((Inl e, []), fs1)
         | (Inr (request_class, response_class, out), fs1) \<Rightarrow>
             (case ServiceGenerator_generate env service_generator
                     request_class response_class fs1 of
                (Inl e, fs2) \<Rightarrow> ((Inl e, out), fs2)
              | (Inr u, fs2) \<Rightarrow>
                  ((Inr (), out @ [ServiceCreated (service_file service_generator)]), fs2)))"

text \<open>The classes the \<^verbatim>\<open>except\<close> clause of line 271 catches.\<close>

definition caught :: "exc \<Rightarrow> bool" where
  "caught e = (fst e \<in> {FileNotFoundError, FileExistsError, ValueError})"

text \<open>The handler: a caught exception is printed and the command returns.\<close>

definition handle_exc ::
  "exc \<Rightarrow> printed list \<Rightarrow> filesystem \<Rightarrow> (exc option \<times> printed list) \<times> filesystem" where
  "handle_exc e out fs =
     (if caught e then ((None, out @ [ErrorPrinted e]), fs) else ((Some e, out), fs))"

text \<open>
  \<^verbatim>\<open>generate_service\<close> (lines 250-273). The result of the prompts of
  \<^verbatim>\<open>get_service_config\<close> is an argument: the configuration, or the exception raised
  while asking for it. The result is the exception that leaves the command, if any,
  what was printed, and the filesystem.
\<close>

definition generate_service ::
  "environment \<Rightarrow> exc + ServiceConfig \<Rightarrow> filesystem
     \<Rightarrow> (exc option \<times> printed list) \<times> filesystem" where
  "generate_service env config_result fs =
     (case config_result of
        Inl e \<Rightarrow> handle_exc e [] fs
      | Inr config \<Rightarrow>
          (case generate_steps env config fs of
             ((Inl e, out), fs') \<Rightarrow> handle_exc e out fs'
           | ((Inr u, out), fs') \<Rightarrow> ((None, out), fs')))"

section \<open>Notions for stating the properties\<close>

text \<open>The text of the regular file at a path, if there is one.\<close>

definition file_content :: "filesystem \<Rightarrow> path \<Rightarrow> string option" where
  "file_content fs p = (case lookup fs p of Some (File s) \<Rightarrow> Some s | _ \<Rightarrow> None)"

text \<open>
  \<open>fs'\<close> differs from \<open>fs\<close> at most by directories at paths where \<open>fs\<close> had nothing.
\<close>

definition only_dirs_added :: "filesystem \<Rightarrow> filesystem \<Rightarrow> bool" where
  "only_dirs_added fs fs' =
     (\<forall>q. lookup fs' q = lookup fs q \<or> (lookup fs q = None \<and> lookup fs' q = Some Dir))"

text \<open>The paths of the regular files, and those of them that a run has created.\<close>

definition file_paths :: "filesystem \<Rightarrow> path list" where
  "file_paths fs = filter (\<lambda>p. file_content fs p \<noteq> None) (remdups (map fst fs))"

definition created_files :: "filesystem \<Rightarrow> filesystem \<Rightarrow> path list" where
  "created_files fs fs' = filter (\<lambda>p. \<not> path_exists fs p) (file_paths fs')"

text \<open>The class of the exception a call raised.\<close>

definition raised_class :: "exc + 'a \<Rightarrow> exc_class option" where
  "raised_class r = (case r of Inl e \<Rightarrow> Some (fst e) | Inr v \<Rightarrow> None)"

text \<open>
  The immediate subdirectories of a directory: the directories whose parent it is.
\<close>

definition subdirectories :: "filesystem \<Rightarrow> path \<Rightarrow> path set" where
  "subdirectories fs root =
     {d. d \<noteq> [] \<and> d \<noteq> [''/''] \<and> butlast d = root \<and> is_dir fs d}"

text \<open>
  A snake-case name: lower-case ASCII letters, digits and underscores.
\<close>

definition snake_char :: "char \<Rightarrow> bool" where
  "snake_char c = (c \<in> set (ascii_lowercase @ ''0123456789_''))"

definition snake_case :: "string \<Rightarrow> bool" where
  "snake_case s = list_all snake_char s"

text \<open>
  The specification's \<open>toPascal\<close>, in its own words: split on underscore, capitalize each
  token's first letter, concatenate. It is compared with \<open>to_pascal\<close>, which is the
  source's expression.
\<close>

fun capitalize_first :: "string \<Rightarrow> string" where
  "capitalize_first [] = []"
| "capitalize_first (c # cs) = char_upper c # cs"

definition spec_toPascal :: "string \<Rightarrow> string" where
  "spec_toPascal s = concat (map capitalize_first (split_on CHR ''_'' s))"

text \<open>
  The specification's base name of a service class: the class name without its suffix
  \<^verbatim>\<open>Service\<close>.
\<close>

definition spec_strip_suffix :: "string \<Rightarrow> string \<Rightarrow> string" where
  "spec_strip_suffix suffix s =
     (if length suffix \<le> length s \<and> drop (length s - length suffix) s = suffix
      then take (length s - length suffix) s else s)"

subsection \<open>Example inputs\<close>

text \<open>A stand-in for the four templates: it shows the three arguments it is given.\<close>

definition example_env :: environment where
  "example_env =
     (\<lambda>n. if n \<in> {''domain_service.j2'', ''application_service.j2'',
                   ''infra_service.j2'', ''shared_service.j2''}
          then Some (\<lambda>a. ''class '' @ service_name a @ ''Service: '' @ request_dto a
                            @ '' -> '' @ response_dto a @ ''\<newline>'')
          else None)"

text \<open>A modules root with the modules billing and inventory and the shared bucket.\<close>

definition example_modules :: filesystem where
  "example_modules =
     [(Path ''src'', Dir), (Path ''src/modules'', Dir),
      (Path ''src/modules/billing'', Dir), (Path ''src/modules/shared'', Dir),
      (Path ''src/modules/inventory'', Dir)]"

text \<open>A modules root that holds the shared bucket only.\<close>

definition example_only_shared :: filesystem where
  "example_only_shared =
     [(Path ''src'', Dir), (Path ''src/modules'', Dir), (Path ''src/modules/shared'', Dir)]"

text \<open>
  The DTO package of the service checkout of module billing with its \<^verbatim>\<open>__init__.py\<close>
  and no DTO file.
\<close>

definition example_init_only :: filesystem where
  "example_init_only =
     example_modules @
     [(Path ''src/modules/billing/dtos'', Dir),
      (Path ''src/modules/billing/dtos/checkout'', Dir),
      (Path ''src/modules/billing/dtos/checkout/__init__.py'', File ''# mine\<newline>'')]"

text \<open>The same package with the response DTO file and no request DTO file.\<close>

definition example_response_only :: filesystem where
  "example_response_only =
     example_modules @
     [(Path ''src/modules/billing/dtos'', Dir),
      (Path ''src/modules/billing/dtos/checkout'', Dir),
      (Path ''src/modules/billing/dtos/checkout/checkout_response_dto.py'',
       File ''class Old:\<newline>    pass\<newline>'')]"

text \<open>Module billing with an application service invoice and no DTOs for it.\<close>

definition example_service_present :: filesystem where
  "example_service_present =
     example_modules @
     [(Path ''src/modules/billing/services'', Dir),
      (Path ''src/modules/billing/services/application'', Dir),
      (Path ''src/modules/billing/services/application/invoice_service.py'',
       File ''class InvoiceService:\<newline>    pass\<newline>'')]"

definition invoice_config :: ServiceConfig where
  "invoice_config =
     \<lparr> cfg_name = ''invoice'', cfg_module = ''billing'', cfg_type = ''application'',
       cfg_create_dtos = True \<rparr>"

definition order_config :: ServiceConfig where
  "order_config =
     \<lparr> cfg_name = ''order'', cfg_module = ''billing'', cfg_type = ''domain'',
       cfg_create_dtos = True \<rparr>"

definition billing_path :: path where
  "billing_path = get_module_path ModuleManager_init ''billing''"

text \<open>
  A directory \<^verbatim>\<open>/tmp\<close> with the files \<^verbatim>\<open>x_request_dto.py\<close> and \<^verbatim>\<open>x_service.py\<close>,
  beside the modules; module billing has neither a DTO nor a service directory.
\<close>

definition example_tmp :: filesystem where
  "example_tmp =
     example_modules @
     [(Path ''/tmp'', Dir),
      (Path ''/tmp/x_request_dto.py'', File ''class Old:\<newline>    pass\<newline>''),
      (Path ''/tmp/x_service.py'', File ''class XService:\<newline>    pass\<newline>'')]"

text \<open>The generators of the examples.\<close>

definition checkout_generator :: DTOGenerator where
  "checkout_generator = DTOGenerator_init billing_path ''checkout'' ''domain''"


definition invoice_service :: ServiceGenerator where
  "invoice_service = ServiceGenerator_init billing_path invoice_config"

definition tmp_generator :: DTOGenerator where
  "tmp_generator = DTOGenerator_init billing_path ''/tmp/x'' ''domain''"

definition tmp_config :: ServiceConfig where
  "tmp_config =
     \<lparr> cfg_name = ''/tmp/x'', cfg_module = ''billing'', cfg_type = ''domain'',
       cfg_create_dtos = False \<rparr>"

definition tmp_service :: ServiceGenerator where
  "tmp_service = ServiceGenerator_init billing_path tmp_config"

text \<open>
  The two generators \<^verbatim>\<open>generate_service\<close> constructs for a configuration (lines 261
  and 265).
\<close>

definition dto_generator_for :: "ServiceConfig \<Rightarrow> DTOGenerator" where
  "dto_generator_for config =
     DTOGenerator_init (get_module_path ModuleManager_init (cfg_module config))
       (cfg_name config) (cfg_type config)"

definition service_generator_for :: "ServiceConfig \<Rightarrow> ServiceGenerator" where
  "service_generator_for config =
     ServiceGenerator_init (get_module_path ModuleManager_init (cfg_module config)) config"

definition checkout_config :: ServiceConfig where
  "checkout_config =
     \<lparr> cfg_name = ''checkout'', cfg_module = ''billing'', cfg_type = ''domain'',
       cfg_create_dtos = True \<rparr>"

section \<open>Facts about the filesystem operations\<close>

lemma only_dirs_added_refl: "only_dirs_added fs fs"
  by (simp add: only_dirs_added_def)

lemma only_dirs_added_trans:
  "only_dirs_added a b \<Longrightarrow> only_dirs_added b c \<Longrightarrow> only_dirs_added a c"
  unfolding only_dirs_added_def by (metis option.distinct(1))

lemma lookup_update:
  "lookup (AList.update p n fs) q =
     (if q = [] \<or> q = [''/''] then Some Dir else if q = p then Some n else lookup fs q)"
  by (simp add: lookup_def update_conv')

lemma os_mkdir_Inr:
  assumes "os_mkdir fs p = Inr fs'"
  shows "lookup fs p = None" and "lookup fs' q = (if q = p then Some Dir else lookup fs q)"
  using assms
  by (auto simp: os_mkdir_def path_exists_def lookup_update split: if_splits) (auto simp: lookup_def)

lemma os_mkdir_only_dirs:
  assumes "os_mkdir fs p = Inr fs'"
  shows "only_dirs_added fs fs'"
  unfolding only_dirs_added_def using os_mkdir_Inr [OF assms] by simp

lemma mkdir_exist_ok_only_dirs: "mkdir_exist_ok fs p = (r, fs') \<Longrightarrow> only_dirs_added fs fs'"
  by (auto simp: mkdir_exist_ok_def only_dirs_added_refl os_mkdir_only_dirs split: sum.splits if_splits)

lemma mkdir_parents_only_dirs: "mkdir_parents fs p = (r, fs') \<Longrightarrow> only_dirs_added fs fs'"
proof (induction fs p arbitrary: r fs' rule: mkdir_parents.induct)
  case (1 fs p)
  show ?case
  proof (cases "os_mkdir fs p")
    case (Inr fs1)
    with "1.prems" show ?thesis
      by (simp add: mkdir_parents.simps [of fs p] os_mkdir_only_dirs)
  next
    case (Inl e)
    show ?thesis
    proof (cases "e = FileNotFoundError \<and> parent p \<noteq> p")
      case False
      with Inl "1.prems" show ?thesis
        by (auto simp: mkdir_parents.simps [of fs p] only_dirs_added_refl split: if_splits)
    next
      case True
      obtain r1 fs1 where up: "mkdir_parents fs (parent p) = (r1, fs1)"
        by (cases "mkdir_parents fs (parent p)")
      from "1.IH" [OF Inl _ _ up] True have a: "only_dirs_added fs fs1" by simp
      show ?thesis
      proof (cases r1)
        case (Inl e1)
        with up True \<open>os_mkdir fs p = Inl e\<close> "1.prems" a show ?thesis
          by (simp add: mkdir_parents.simps [of fs p])
      next
        case (Inr u)
        with up True \<open>os_mkdir fs p = Inl e\<close> "1.prems"
        have "mkdir_exist_ok fs1 p = (r, fs')"
          by (simp add: mkdir_parents.simps [of fs p])
        then show ?thesis
          using a mkdir_exist_ok_only_dirs only_dirs_added_trans by blast
      qed
    qed
  qed
qed

lemma mkdir_exist_ok_is_dir: "mkdir_exist_ok fs p = (Inr u, fs') \<Longrightarrow> is_dir fs' p"
  by (auto simp: mkdir_exist_ok_def is_dir_def dest: os_mkdir_Inr split: sum.splits if_splits)

lemma mkdir_parents_is_dir: "mkdir_parents fs p = (Inr u, fs') \<Longrightarrow> is_dir fs' p"
  by (subst (asm) mkdir_parents.simps)
     (auto simp: is_dir_def dest: os_mkdir_Inr mkdir_exist_ok_is_dir split: sum.splits if_splits prod.splits)

lemma mkdir_parents_existing: "is_dir fs p \<Longrightarrow> mkdir_parents fs p = (Inr (), fs)"
  by (subst mkdir_parents.simps) (simp add: os_mkdir_def path_exists_def is_dir_def)

lemma mkdir_parents_message: "mkdir_parents fs p = (Inl e, fs') \<Longrightarrow> snd e = MsgLibrary"
proof (induction fs p arbitrary: e fs' rule: mkdir_parents.induct)
  case (1 fs p)
  from "1.prems" show ?case
    apply (subst (asm) mkdir_parents.simps)
    apply (auto simp: mkdir_exist_ok_def  split: sum.splits if_splits prod.splits dest: "1.IH")
    done
qed

lemma write_text_Inr:
  assumes "write_text fs p s = (Inr u, fs')"
  shows "lookup fs' q = (if q = p then Some (File s) else lookup fs q)"
  using assms
  by (auto simp: write_text_def lookup_update is_dir_def split: if_splits) (auto simp: lookup_def)

lemma write_text_Inl: "write_text fs p s = (Inl e, fs') \<Longrightarrow> fs' = fs \<and> snd e = MsgLibrary"
  by (auto simp: write_text_def split: if_splits)

section \<open>Facts about the string functions\<close>

lemma snake_char_lower:
  assumes "snake_char c"
  shows "char_lower c = c"
  using assms unfolding snake_char_def ascii_lowercase_def
  apply (simp only: set_simps append.simps insert_iff empty_iff)
  apply (elim disjE)
  apply (simp_all add: char_lower_def ascii_lowercase_def ascii_uppercase_def)
  done

lemma split_on_not_Nil: "split_on sep s \<noteq> []"
  by (induction s) (simp_all split: list.splits)

lemma set_split_on: "w \<in> set (split_on sep s) \<Longrightarrow> set w \<subseteq> set s"
proof (induction s arbitrary: w)
  case Nil
  then show ?case by simp
next
  case (Cons c cs)
  show ?case
  proof (cases "c = sep")
    case True
    with Cons.prems have "w = [] \<or> w \<in> set (split_on sep cs)" by simp
    then show ?thesis
    proof
      assume "w = []"
      then show ?thesis by simp
    next
      assume "w \<in> set (split_on sep cs)"
      from Cons.IH [OF this] show ?thesis by (simp add: subset_insertI2)
    qed
  next
    case False
    obtain v vs where sp: "split_on sep cs = v # vs"
      using split_on_not_Nil [of sep cs] by (cases "split_on sep cs") simp_all
    have v: "set v \<subseteq> set cs"
      by (rule Cons.IH) (simp add: sp)
    from False Cons.prems sp have "w = c # v \<or> w \<in> set vs" by simp
    then show ?thesis
    proof
      assume "w = c # v"
      with v show ?thesis by (simp add: subset_insertI2)
    next
      assume "w \<in> set vs"
      then have "w \<in> set (split_on sep cs)" by (simp add: sp)
      from Cons.IH [OF this] show ?thesis by (simp add: subset_insertI2)
    qed
  qed
qed

lemma py_capitalize_snake:
  assumes "list_all snake_char w"
  shows "py_capitalize w = capitalize_first w"
proof (cases w)
  case Nil
  then show ?thesis by simp
next
  case (Cons c cs)
  with assms have "\<And>x. x \<in> set cs \<Longrightarrow> char_lower x = x"
    by (simp add: list_all_iff snake_char_lower)
  then have "map char_lower cs = cs"
    by (rule map_idI)
  with Cons show ?thesis by simp
qed

section \<open>Facts about the module catalog\<close>

lemma iterdir_iff:
  "d \<in> set (iterdir fs root) \<longleftrightarrow>
     d \<in> fst ` set fs \<and> d \<noteq> [] \<and> d \<noteq> [''/''] \<and> butlast d = root"
  by (auto simp: iterdir_def)

lemma is_dir_in_fs: "is_dir fs d \<Longrightarrow> d \<noteq> [] \<Longrightarrow> d \<noteq> [''/''] \<Longrightarrow> d \<in> fst ` set fs"
  by (auto simp: is_dir_def lookup_def dest: map_of_SomeD intro: rev_image_eqI)

lemma listed_subdirectories:
  "set (filter (\<lambda>d. is_dir fs d \<and> path_name d \<noteq> ''shared'') (iterdir fs root))
     = {d \<in> subdirectories fs root. path_name d \<noteq> ''shared''}"
  using is_dir_in_fs by (auto simp: iterdir_iff subdirectories_def)

section \<open>Facts about the two generators\<close>

lemma only_dirs_added_exists:
  "only_dirs_added fs fs' \<Longrightarrow> path_exists fs p \<Longrightarrow> lookup fs' p = lookup fs p"
  by (auto simp: only_dirs_added_def path_exists_def)

lemma only_dirs_added_file_content:
  "only_dirs_added fs fs' \<Longrightarrow> file_content fs' p = file_content fs p"
  unfolding only_dirs_added_def file_content_def
  by (metis node.simps(5) option.simps(4) option.simps(5))

lemma only_dirs_added_not_exists:
  "only_dirs_added fs fs' \<Longrightarrow> \<not> path_exists fs' p \<Longrightarrow> \<not> path_exists fs p"
  unfolding only_dirs_added_def path_exists_def by metis

lemma ServiceGenerator_generate_Inl:
  assumes "ServiceGenerator_generate env g rq rs fs = (Inl e, fs')"
  shows "only_dirs_added fs fs'"
  using assms
  by (auto simp: ServiceGenerator_generate_def only_dirs_added_refl
           split: prod.splits sum.splits if_splits
           dest: mkdir_parents_only_dirs write_text_Inl)

lemma ServiceGenerator_generate_duplicate_dir:
  assumes "ServiceGenerator_generate env g rq rs fs
             = (Inl (FileExistsError, MsgServiceAlreadyExists n), fs')"
  shows "mkdir_parents fs (svc_service_dir g) = (Inr (), fs')"
  using assms
  by (auto simp: ServiceGenerator_generate_def get_template_content_def
           split: prod.splits sum.splits if_splits option.splits
           dest: mkdir_parents_message write_text_Inl)

lemma DTOGenerator_generate_duplicate_dir:
  assumes "DTOGenerator_generate g fs = (Inl (FileExistsError, MsgDtosAlreadyExist n), fs')"
  shows "mkdir_parents fs (dto_dtos_dir g) = (Inr (), fs')"
  using assms
  by (auto simp: DTOGenerator_generate_def
           split: prod.splits sum.splits if_splits
           dest: mkdir_parents_message write_text_Inl)

lemma split_on_no_sep: "sep \<notin> set s \<Longrightarrow> split_on sep s = [s]"
  by (induction s) auto

lemma split_on_append:
  "sep \<notin> set suf \<Longrightarrow>
     split_on sep (s @ suf) = butlast (split_on sep s) @ [last (split_on sep s) @ suf]"
proof (induction s)
  case Nil
  then show ?case by (simp add: split_on_no_sep)
next
  case (Cons c cs)
  obtain v vs where sp: "split_on sep cs = v # vs"
    using split_on_not_Nil [of sep cs] by (cases "split_on sep cs") simp_all
  have ne: "butlast (v # vs) @ [last (v # vs) @ suf] \<noteq> []"
    by simp
  from Cons sp have IH: "split_on sep (cs @ suf) = butlast (v # vs) @ [last (v # vs) @ suf]"
    by simp
  show ?case
  proof (cases "c = sep")
    case True
    then show ?thesis using IH sp by simp
  next
    case False
    then show ?thesis using IH sp by (cases vs) simp_all
  qed
qed

lemma Path_append_last:
  assumes "CHR ''/'' \<notin> set suf" and "2 \<le> length suf"
  shows "Path (s @ suf) \<noteq> [] \<and> last (Path (s @ suf)) = last (split_on CHR ''/'' s) @ suf"
proof -
  let ?t = "last (split_on CHR ''/'' s) @ suf"
  from assms(2) have "?t \<noteq> []" and "?t \<noteq> ''.''"
    by (auto dest: arg_cong [where f = length])
  then have "filter (\<lambda>w. w \<noteq> [] \<and> w \<noteq> ''.'') (split_on CHR ''/'' (s @ suf))
               = filter (\<lambda>w. w \<noteq> [] \<and> w \<noteq> ''.'') (butlast (split_on CHR ''/'' s)) @ [?t]"
    by (simp add: split_on_append [OF assms(1)])
  then show ?thesis
    by (simp add: Path_def)
qed

lemma pjoin_last: "Path s \<noteq> [] \<Longrightarrow> last (pjoin p s) = last (Path s)"
  by (simp add: pjoin_def)

lemma last_request_file:
  "last (request_file g) = last (split_on CHR ''/'' (dto_service_name g)) @ ''_request_dto.py''"
  using Path_append_last [of "''_request_dto.py''" "dto_service_name g"]
  by (simp add: request_file_def pjoin_last)

lemma last_response_file:
  "last (response_file g) = last (split_on CHR ''/'' (dto_service_name g)) @ ''_response_dto.py''"
  using Path_append_last [of "''_response_dto.py''" "dto_service_name g"]
  by (simp add: response_file_def pjoin_last)

lemma last_init_file: "last (init_file g) = ''__init__.py''"
proof -
  have "Path ''__init__.py'' = [''__init__.py'']" by code_simp
  then show ?thesis by (simp add: init_file_def pjoin_last)
qed

lemma dto_files_distinct:
  "request_file g \<noteq> response_file g" "request_file g \<noteq> init_file g"
  "response_file g \<noteq> init_file g"
proof -
  show "request_file g \<noteq> response_file g"
  proof
    assume "request_file g = response_file g"
    then have "last (request_file g) = last (response_file g)" by simp
    then show False by (simp add: last_request_file last_response_file)
  qed
  show "request_file g \<noteq> init_file g"
  proof
    assume "request_file g = init_file g"
    then have "length (last (request_file g)) = length (last (init_file g))" by simp
    then show False by (simp add: last_request_file last_init_file)
  qed
  show "response_file g \<noteq> init_file g"
  proof
    assume "response_file g = init_file g"
    then have "length (last (response_file g)) = length (last (init_file g))" by simp
    then show False by (simp add: last_response_file last_init_file)
  qed
qed

lemma file_content_write:
  assumes "write_text fs p s = (Inr u, fs')"
  shows "file_content fs' q = (if q = p then Some s else file_content fs q)"
  by (simp add: file_content_def write_text_Inr [OF assms])

lemma DTOGenerator_generate_Inr:
  assumes "DTOGenerator_generate g fs = (Inr names, fs')"
  shows "names = (dto_request_class_name g, dto_response_class_name g)"
    and "\<not> path_exists fs (request_file g)" and "\<not> path_exists fs (response_file g)"
    and "file_content fs' (request_file g) = Some (class_stub (dto_request_class_name g))"
    and "file_content fs' (response_file g) = Some (class_stub (dto_response_class_name g))"
    and "file_content fs' (init_file g) = Some (init_content g)"
    and "q \<notin> {request_file g, response_file g, init_file g} \<Longrightarrow>
           file_content fs' q = file_content fs q"
proof -
  obtain r1 fs1 where m: "mkdir_parents fs (dto_dtos_dir g) = (r1, fs1)"
    by (cases "mkdir_parents fs (dto_dtos_dir g)")
  obtain r2 fs2 where w2:
    "write_text fs1 (request_file g) (class_stub (dto_request_class_name g)) = (r2, fs2)"
    by (cases "write_text fs1 (request_file g) (class_stub (dto_request_class_name g))")
  obtain r3 fs3 where w3:
    "write_text fs2 (response_file g) (class_stub (dto_response_class_name g)) = (r3, fs3)"
    by (cases "write_text fs2 (response_file g) (class_stub (dto_response_class_name g))")
  obtain r4 fs4 where w4: "write_text fs3 (init_file g) (init_content g) = (r4, fs4)"
    by (cases "write_text fs3 (init_file g) (init_content g)")
  from assms m w2 w3 w4
  have ok: "r1 = Inr ()" "r2 = Inr ()" "r3 = Inr ()" "r4 = Inr ()" "fs' = fs4"
    and ne: "\<not> path_exists fs1 (request_file g)" "\<not> path_exists fs1 (response_file g)"
    and names: "names = (dto_request_class_name g, dto_response_class_name g)"
    by (auto simp: DTOGenerator_generate_def split: sum.splits if_splits)
  from m have d: "only_dirs_added fs fs1"
    by (rule mkdir_parents_only_dirs)
  note c2 = file_content_write [OF w2 [unfolded ok]]
  note c3 = file_content_write [OF w3 [unfolded ok]]
  note c4 = file_content_write [OF w4 [unfolded ok]]
  show "names = (dto_request_class_name g, dto_response_class_name g)" by (rule names)
  show "\<not> path_exists fs (request_file g)" "\<not> path_exists fs (response_file g)"
    using ne d by (auto dest: only_dirs_added_not_exists)
  show "file_content fs' (request_file g) = Some (class_stub (dto_request_class_name g))"
    by (simp add: ok c4 c3 c2 dto_files_distinct)
  show "file_content fs' (response_file g) = Some (class_stub (dto_response_class_name g))"
    by (simp add: ok c4 c3 c2 dto_files_distinct)
  show "file_content fs' (init_file g) = Some (init_content g)"
    by (simp add: ok c4)
  show "file_content fs' q = file_content fs q"
    if "q \<notin> {request_file g, response_file g, init_file g}"
    using that by (simp add: ok c4 c3 c2 only_dirs_added_file_content [OF d])
qed

lemma DTOGenerator_generate_existing:
  assumes "path_exists fs (request_file g) \<or> path_exists fs (response_file g)"
  shows "\<exists>e fs'. DTOGenerator_generate g fs = (Inl e, fs') \<and> only_dirs_added fs fs'"
proof -
  obtain r1 fs1 where m: "mkdir_parents fs (dto_dtos_dir g) = (r1, fs1)"
    by (cases "mkdir_parents fs (dto_dtos_dir g)")
  then have d: "only_dirs_added fs fs1"
    by (rule mkdir_parents_only_dirs)
  with assms have "path_exists fs1 (request_file g) \<or> path_exists fs1 (response_file g)"
    using only_dirs_added_not_exists by blast
  with m d show ?thesis
    by (cases r1) (auto simp: DTOGenerator_generate_def)
qed

lemma ServiceGenerator_generate_Inr:
  assumes "ServiceGenerator_generate env g rq rs fs = (Inr u, fs')"
  shows "\<exists>body. get_template_content env g rq rs = Inr body
           \<and> file_content fs' (service_file g)
               = Some (if cfg_create_dtos (svc_config g)
                       then import_line g rq rs @ ''\<newline>\<newline>'' @ body else body)"
  using assms
  by (auto simp: ServiceGenerator_generate_def file_content_write
           split: prod.splits sum.splits if_splits)

lemma import_line_init:
  "import_line (ServiceGenerator_init module_path config) request_class response_class
     = (if cfg_type config = ''shared''
        then ''from src.modules.'' @ cfg_module config @ ''.services.''
               @ py_lower (cfg_name config) @ ''.dtos import ''
               @ request_class @ '', '' @ response_class
        else ''from src.modules.'' @ cfg_module config @ ''.dtos.''
               @ py_lower (cfg_name config) @ '' import ''
               @ request_class @ '', '' @ response_class)"
  by (simp add: import_line_def ServiceGenerator_init_def)

lemma svc_config_init: "svc_config (ServiceGenerator_init module_path config) = config"
  by (simp add: ServiceGenerator_init_def)

lemma generate_service_dto_fails:
  assumes "cfg_create_dtos config"
    and "DTOGenerator_generate (dto_generator_for config) fs = (Inl e, fs1)"
  shows "generate_service env (Inr config) fs = handle_exc e [] fs1"
  using assms
  by (simp add: generate_service_def generate_steps_def dto_generator_for_def Let_def)

lemma generate_service_service_fails:
  assumes "cfg_create_dtos config"
    and "DTOGenerator_generate (dto_generator_for config) fs = (Inr (rq, rs), fs1)"
    and "ServiceGenerator_generate env (service_generator_for config) rq rs fs1 = (Inl e, fs2)"
  shows "generate_service env (Inr config) fs
           = handle_exc e [DtosCreated (dto_dtos_dir (dto_generator_for config))] fs2"
  using assms
  by (simp add: generate_service_def generate_steps_def dto_generator_for_def
        service_generator_for_def Let_def)

lemma snd_handle_exc: "snd (handle_exc e out fs) = fs"
  by (simp add: handle_exc_def)

section \<open>Naming\<close>

text \<open>
  Claim C9. For every snake-case input the source's expression computes what the
  specification's \<open>toPascal\<close> describes: the input split on underscore, each token's first
  letter capitalized, the tokens concatenated. Both are total functions of their argument.
  In particular \<^verbatim>\<open>user_profile\<close> gives \<^verbatim>\<open>UserProfile\<close>, and the names derived for a service
  \<^verbatim>\<open>foo_bar\<close> are \<^verbatim>\<open>FooBarRequestDto\<close>, \<^verbatim>\<open>FooBarResponseDto\<close> and \<^verbatim>\<open>FooBarService\<close>.
\<close>
theorem to_pascal_refines_spec:
  "(snake_case s \<longrightarrow> to_pascal s = spec_toPascal s)
   \<and> to_pascal ''user_profile'' = ''UserProfile''
   \<and> dto_request_class_name (DTOGenerator_init module_path ''foo_bar'' service_type)
       = ''FooBarRequestDto''
   \<and> dto_response_class_name (DTOGenerator_init module_path ''foo_bar'' service_type)
       = ''FooBarResponseDto''
   \<and> svc_service_class_name
        (ServiceGenerator_init module_path
           \<lparr> cfg_name = ''foo_bar'', cfg_module = module, cfg_type = service_type,
             cfg_create_dtos = create_dtos \<rparr>)
       = ''FooBarService''"
proof -
  have "to_pascal s = spec_toPascal s" if "snake_case s"
  proof -
    have "py_capitalize w = capitalize_first w" if "w \<in> set (split_on CHR ''_'' s)" for w
    proof (rule py_capitalize_snake)
      from that have "set w \<subseteq> set s" by (rule set_split_on)
      with \<open>snake_case s\<close> show "list_all snake_char w"
        unfolding snake_case_def list_all_iff by blast
    qed
    then show ?thesis
      by (simp add: to_pascal_def spec_toPascal_def cong: map_cong)
  qed
  moreover have "to_pascal ''user_profile'' = ''UserProfile''"
    by code_simp
  moreover have "to_pascal ''foo_bar_request_dto'' = ''FooBarRequestDto''"
    by code_simp
  moreover have "to_pascal ''foo_bar_response_dto'' = ''FooBarResponseDto''"
    by code_simp
  moreover have "to_pascal ''foo_bar'' = ''FooBar''"
    by code_simp
  ultimately show ?thesis
    by (simp add: DTOGenerator_init_def ServiceGenerator_init_def)
qed

theorem to_pascal_refines_spec_witness:
  "snake_case ''order_item2'' \<and> to_pascal ''order_item2'' = spec_toPascal ''order_item2''
   \<and> to_pascal ''order_item2'' = ''OrderItem2''"
proof -
  have h: "snake_case ''order_item2''"
    by code_simp
  have "to_pascal ''order_item2'' = ''OrderItem2''"
    by code_simp
  with h to_pascal_refines_spec [of "''order_item2''"] show ?thesis
    by simp
qed

text \<open>
  Claim C1, at the service name \<^verbatim>\<open>service_manager\<close>. The service class is
  \<^verbatim>\<open>ServiceManagerService\<close>, and without its suffix that is \<^verbatim>\<open>ServiceManager\<close>; the
  template is given \<^verbatim>\<open>Manager\<close>, since \<^verbatim>\<open>replace\<close> removes every occurrence of
  \<^verbatim>\<open>Service\<close> and not the suffix alone.
\<close>
theorem render_args_strips_every_Service:
  "svc_service_class_name
     (ServiceGenerator_init billing_path
        \<lparr> cfg_name = ''service_manager'', cfg_module = ''billing'', cfg_type = ''domain'',
          cfg_create_dtos = False \<rparr>) = ''ServiceManagerService''
   \<and> spec_strip_suffix ''Service'' ''ServiceManagerService'' = ''ServiceManager''
   \<and> service_name
       (render_args
          (ServiceGenerator_init billing_path
             \<lparr> cfg_name = ''service_manager'', cfg_module = ''billing'', cfg_type = ''domain'',
               cfg_create_dtos = False \<rparr>) [] []) = ''Manager''"
  by code_simp

text \<open>
  Claim C2, at the service name \<^verbatim>\<open>Checkout\<close>. For a layer other than shared the DTO
  directory is named with the name as typed, so \<^verbatim>\<open>Checkout\<close> and \<^verbatim>\<open>checkout\<close> give two
  directories, although the generator's own \<^verbatim>\<open>service_name\<close> is lower-cased and the
  shared branch uses it.
\<close>
theorem dtos_dir_keeps_letter_case:
  "dto_dtos_dir (DTOGenerator_init billing_path ''Checkout'' ''domain'')
     = [''src'', ''modules'', ''billing'', ''dtos'', ''Checkout'']
   \<and> dto_dtos_dir (DTOGenerator_init billing_path ''checkout'' ''domain'')
     = [''src'', ''modules'', ''billing'', ''dtos'', ''checkout'']
   \<and> dto_service_name (DTOGenerator_init billing_path ''Checkout'' ''domain'') = ''checkout''
   \<and> dto_dtos_dir (DTOGenerator_init billing_path ''Checkout'' ''shared'')
     = [''src'', ''modules'', ''billing'', ''services'', ''checkout'', ''dtos'']"
  by code_simp


section \<open>The module catalog\<close>

text \<open>
  Claim C8. When \<open>get_available_modules\<close> returns, the names it returns are exactly the
  names of the immediate subdirectories of the modules root other than \<^verbatim>\<open>shared\<close>; it does
  return when the root is a directory with such a subdirectory; and a root holding the
  directories billing, shared and inventory gives exactly billing and inventory.
\<close>
theorem get_available_modules_lists_subdirectories:
  "(get_available_modules m fs = Inr modules \<longrightarrow>
      set modules = path_name ` {d \<in> subdirectories fs (base_path m). path_name d \<noteq> ''shared''})
   \<and> (is_dir fs (base_path m) \<and> d \<in> subdirectories fs (base_path m)
        \<and> path_name d \<noteq> ''shared'' \<longrightarrow>
      (\<exists>modules. get_available_modules m fs = Inr modules \<and> path_name d \<in> set modules))
   \<and> get_available_modules ModuleManager_init example_modules
        = Inr [''billing'', ''inventory'']"
proof (intro conjI impI)
  assume "get_available_modules m fs = Inr modules"
  then have "modules = map path_name
      (filter (\<lambda>d. is_dir fs d \<and> path_name d \<noteq> ''shared'') (iterdir fs (base_path m)))"
    by (simp add: get_available_modules_def Let_def split: if_splits)
  then show "set modules
      = path_name ` {d \<in> subdirectories fs (base_path m). path_name d \<noteq> ''shared''}"
    by (simp only: set_map listed_subdirectories)
next
  assume a: "is_dir fs (base_path m) \<and> d \<in> subdirectories fs (base_path m)
      \<and> path_name d \<noteq> ''shared''"
  let ?ds = "filter (\<lambda>d. is_dir fs d \<and> path_name d \<noteq> ''shared'') (iterdir fs (base_path m))"
  from a have "d \<in> set ?ds"
    unfolding listed_subdirectories by simp
  then have mem: "path_name d \<in> set (map path_name ?ds)"
    by (simp only: set_map imageI)
  then have ne: "map path_name ?ds \<noteq> []"
    by (cases "map path_name ?ds") simp_all
  from a have "path_exists fs (base_path m)"
    by (simp add: is_dir_def path_exists_def)
  with a ne have "get_available_modules m fs = Inr (map path_name ?ds)"
    by (simp add: get_available_modules_def Let_def)
  with mem show "\<exists>modules. get_available_modules m fs = Inr modules \<and> path_name d \<in> set modules"
    by blast
next
  show "get_available_modules ModuleManager_init example_modules = Inr [''billing'', ''inventory'']"
    by code_simp
qed

theorem get_available_modules_lists_subdirectories_witness:
  "get_available_modules ModuleManager_init example_modules = Inr [''billing'', ''inventory'']
   \<and> is_dir example_modules (base_path ModuleManager_init)
   \<and> Path ''src/modules/inventory'' \<in> subdirectories example_modules (base_path ModuleManager_init)
   \<and> path_name (Path ''src/modules/inventory'') \<noteq> ''shared''
   \<and> set [''billing'', ''inventory'']
       = path_name ` {d \<in> subdirectories example_modules (base_path ModuleManager_init).
                        path_name d \<noteq> ''shared''}
   \<and> (\<exists>modules. get_available_modules ModuleManager_init example_modules = Inr modules
         \<and> path_name (Path ''src/modules/inventory'') \<in> set modules)"
proof -
  have r: "get_available_modules ModuleManager_init example_modules = Inr [''billing'', ''inventory'']"
    by code_simp
  have d: "is_dir example_modules (base_path ModuleManager_init)"
    by code_simp
  have i: "is_dir example_modules (Path ''src/modules/inventory'')"
    by code_simp
  have p: "Path ''src/modules/inventory'' = [''src'', ''modules'', ''inventory'']"
          "base_path ModuleManager_init = [''src'', ''modules'']"
    by code_simp+
  have s: "Path ''src/modules/inventory'' \<in> subdirectories example_modules (base_path ModuleManager_init)"
    using i by (simp add: subdirectories_def p)
  have n: "path_name (Path ''src/modules/inventory'') \<noteq> ''shared''"
    by (simp add: p path_name_def)
  from get_available_modules_lists_subdirectories
         [of ModuleManager_init example_modules "[''billing'', ''inventory'']"
             "Path ''src/modules/inventory''"]
       r d s n
  show ?thesis by blast
qed

text \<open>
  Claim C5 says that a missing modules root and a root without eligible modules raise
  errors of two different kinds. Both raise the same class, \<^verbatim>\<open>FileNotFoundError\<close>: here
  with no modules root at all, and with a root that holds the shared bucket only.
\<close>
theorem catalog_errors_same_class_counterexample:
  "raised_class (get_available_modules ModuleManager_init []) = Some FileNotFoundError
   \<and> raised_class (get_available_modules ModuleManager_init example_only_shared)
       = Some FileNotFoundError"
  by code_simp

text \<open>
  Claim C5, amended. \<open>get_available_modules\<close> raises \<^verbatim>\<open>FileNotFoundError\<close> when the modules
  root does not exist, and raises the same class \<^verbatim>\<open>FileNotFoundError\<close> when the root is a
  directory with no subdirectory other than \<^verbatim>\<open>shared\<close>; the two exceptions differ in their
  message only.
\<close>

theorem get_available_modules_errors:
  "(\<not> path_exists fs (base_path m) \<longrightarrow>
      get_available_modules m fs = Inl (FileNotFoundError, MsgModulesDirNotFound))
   \<and> (is_dir fs (base_path m)
        \<and> {d \<in> subdirectories fs (base_path m). path_name d \<noteq> ''shared''} = {} \<longrightarrow>
      get_available_modules m fs = Inl (FileNotFoundError, MsgNoModuleFound))
   \<and> MsgModulesDirNotFound \<noteq> MsgNoModuleFound"
proof (intro conjI impI)
  assume "\<not> path_exists fs (base_path m)"
  then show "get_available_modules m fs = Inl (FileNotFoundError, MsgModulesDirNotFound)"
    by (simp add: get_available_modules_def)
next
  assume a: "is_dir fs (base_path m)
      \<and> {d \<in> subdirectories fs (base_path m). path_name d \<noteq> ''shared''} = {}"
  then have "set (filter (\<lambda>d. is_dir fs d \<and> path_name d \<noteq> ''shared'')
                   (iterdir fs (base_path m))) = {}"
    unfolding listed_subdirectories by simp
  then have "filter (\<lambda>d. is_dir fs d \<and> path_name d \<noteq> ''shared'')
                 (iterdir fs (base_path m)) = []"
    by (simp only: set_empty)
  moreover from a have "path_exists fs (base_path m)"
    by (simp add: is_dir_def path_exists_def)
  ultimately show "get_available_modules m fs = Inl (FileNotFoundError, MsgNoModuleFound)"
    using a by (simp add: get_available_modules_def)
next
  show "MsgModulesDirNotFound \<noteq> MsgNoModuleFound" by simp
qed

theorem get_available_modules_errors_witness:
  "\<not> path_exists [] (base_path ModuleManager_init)
   \<and> get_available_modules ModuleManager_init [] = Inl (FileNotFoundError, MsgModulesDirNotFound)
   \<and> is_dir example_only_shared (base_path ModuleManager_init)
   \<and> {d \<in> subdirectories example_only_shared (base_path ModuleManager_init).
         path_name d \<noteq> ''shared''} = {}
   \<and> get_available_modules ModuleManager_init example_only_shared
       = Inl (FileNotFoundError, MsgNoModuleFound)"
proof -
  have a: "\<not> path_exists [] (base_path ModuleManager_init)"
    by code_simp
  have d: "is_dir example_only_shared (base_path ModuleManager_init)"
    by code_simp
  have "filter (\<lambda>d. is_dir example_only_shared d \<and> path_name d \<noteq> ''shared'')
           (iterdir example_only_shared (base_path ModuleManager_init)) = []"
    by code_simp
  then have e: "{d \<in> subdirectories example_only_shared (base_path ModuleManager_init).
         path_name d \<noteq> ''shared''} = {}"
    unfolding listed_subdirectories [symmetric] by simp
  from get_available_modules_errors [of "[]" ModuleManager_init]
       get_available_modules_errors [of example_only_shared ModuleManager_init] a d e
  show ?thesis by blast
qed

section \<open>DTOGenerator.generate and ServiceGenerator.generate\<close>

text \<open>
  Claim C3 says that a successful \<open>generate\<close> creates exactly three files. When the DTO
  package already holds an \<^verbatim>\<open>__init__.py\<close> and neither DTO file, \<open>generate\<close> succeeds,
  creates the two DTO files and replaces the \<^verbatim>\<open>__init__.py\<close> that was there: two files
  are created, not three.
\<close>

theorem DTOGenerator_generate_init_overwritten_counterexample:
  "fst (DTOGenerator_generate checkout_generator example_init_only)
     = Inr (''CheckoutRequestDto'', ''CheckoutResponseDto'')
   \<and> file_content example_init_only (init_file checkout_generator) = Some ''# mine\<newline>''
   \<and> created_files example_init_only
        (snd (DTOGenerator_generate checkout_generator example_init_only))
       = [request_file checkout_generator, response_file checkout_generator]
   \<and> length (created_files example_init_only
        (snd (DTOGenerator_generate checkout_generator example_init_only))) = 2"
  by code_simp

text \<open>
  Claim C3, amended. In every filesystem state in which the request DTO file or the
  response DTO file exists, \<open>generate\<close> raises and changes no file (it adds directories at
  most); when the DTO directory is a directory, as it is when one of the two files is in
  it, the exception is the \<^verbatim>\<open>FileExistsError\<close> of line 75 and the filesystem is left as it
  was, so a request file that was missing is still missing. When \<open>generate\<close> succeeds,
  neither DTO file existed before, both now hold their class stub, \<^verbatim>\<open>__init__.py\<close> holds
  the re-exports, whether it was created or replaced, and no other file has changed.
\<close>

theorem DTOGenerator_generate_files:
  "(path_exists fs (request_file g) \<or> path_exists fs (response_file g) \<longrightarrow>
      (\<exists>e fs1. DTOGenerator_generate g fs = (Inl e, fs1) \<and> only_dirs_added fs fs1)
      \<and> (is_dir fs (dto_dtos_dir g) \<longrightarrow>
           DTOGenerator_generate g fs
             = (Inl (FileExistsError, MsgDtosAlreadyExist (dto_service_name g)), fs)))
   \<and> (DTOGenerator_generate g fs = (Inr names, fs') \<longrightarrow>
        \<not> path_exists fs (request_file g) \<and> \<not> path_exists fs (response_file g)
        \<and> file_content fs' (request_file g) = Some (class_stub (dto_request_class_name g))
        \<and> file_content fs' (response_file g) = Some (class_stub (dto_response_class_name g))
        \<and> file_content fs' (init_file g) = Some (init_content g)
        \<and> (\<forall>q. q \<notin> {request_file g, response_file g, init_file g} \<longrightarrow>
              file_content fs' q = file_content fs q))"
proof (intro conjI impI allI)
  assume "path_exists fs (request_file g) \<or> path_exists fs (response_file g)"
  then show "\<exists>e fs1. DTOGenerator_generate g fs = (Inl e, fs1) \<and> only_dirs_added fs fs1"
    by (rule DTOGenerator_generate_existing)
next
  assume "path_exists fs (request_file g) \<or> path_exists fs (response_file g)"
    and "is_dir fs (dto_dtos_dir g)"
  then show "DTOGenerator_generate g fs
      = (Inl (FileExistsError, MsgDtosAlreadyExist (dto_service_name g)), fs)"
    by (simp add: DTOGenerator_generate_def mkdir_parents_existing)
qed (simp_all add: DTOGenerator_generate_Inr)

theorem DTOGenerator_generate_files_witness:
  "path_exists example_response_only (response_file checkout_generator)
   \<and> \<not> path_exists example_response_only (request_file checkout_generator)
   \<and> is_dir example_response_only (dto_dtos_dir checkout_generator)
   \<and> DTOGenerator_generate checkout_generator example_response_only
       = (Inl (FileExistsError, MsgDtosAlreadyExist ''checkout''), example_response_only)
   \<and> fst (DTOGenerator_generate checkout_generator example_modules)
       = Inr (''CheckoutRequestDto'', ''CheckoutResponseDto'')
   \<and> file_content (snd (DTOGenerator_generate checkout_generator example_modules))
        (request_file checkout_generator) = Some (class_stub ''CheckoutRequestDto'')
   \<and> file_content (snd (DTOGenerator_generate checkout_generator example_modules))
        (response_file checkout_generator) = Some (class_stub ''CheckoutResponseDto'')
   \<and> file_content (snd (DTOGenerator_generate checkout_generator example_modules))
        (init_file checkout_generator) = Some (init_content checkout_generator)"
proof -
  have a: "path_exists example_response_only (response_file checkout_generator)"
    by code_simp
  have b: "\<not> path_exists example_response_only (request_file checkout_generator)"
    by code_simp
  have c: "is_dir example_response_only (dto_dtos_dir checkout_generator)"
    by code_simp
  have n: "dto_service_name checkout_generator = ''checkout''"
          "dto_request_class_name checkout_generator = ''CheckoutRequestDto''"
          "dto_response_class_name checkout_generator = ''CheckoutResponseDto''"
    by code_simp+
  have d: "fst (DTOGenerator_generate checkout_generator example_modules)
             = Inr (''CheckoutRequestDto'', ''CheckoutResponseDto'')"
    by code_simp
  then have e: "DTOGenerator_generate checkout_generator example_modules
      = (Inr (''CheckoutRequestDto'', ''CheckoutResponseDto''),
         snd (DTOGenerator_generate checkout_generator example_modules))"
    by (simp add: prod_eq_iff)
  from DTOGenerator_generate_files [of example_response_only checkout_generator]
       DTOGenerator_generate_files [of example_modules checkout_generator
          "(''CheckoutRequestDto'', ''CheckoutResponseDto'')"
          "snd (DTOGenerator_generate checkout_generator example_modules)"]
       a b c d e n
  show ?thesis by simp
qed

text \<open>
  Claim C7. In every filesystem state in which the service file exists in the service
  directory, \<open>generate\<close> raises the \<^verbatim>\<open>FileExistsError\<close> of line 134 and leaves the filesystem
  as it was: nothing is rendered and nothing is written.
\<close>
theorem ServiceGenerator_generate_duplicate:
  assumes "is_dir fs (svc_service_dir g)" and "path_exists fs (service_file g)"
  shows "ServiceGenerator_generate env g request_class response_class fs
           = (Inl (FileExistsError, MsgServiceAlreadyExists (svc_service_name g)), fs)"
  using assms by (simp add: ServiceGenerator_generate_def mkdir_parents_existing)

theorem ServiceGenerator_generate_duplicate_witness:
  "is_dir example_service_present (svc_service_dir invoice_service)
   \<and> path_exists example_service_present (service_file invoice_service)
   \<and> ServiceGenerator_generate example_env invoice_service
        ''InvoiceRequestDto'' ''InvoiceResponseDto'' example_service_present
       = (Inl (FileExistsError, MsgServiceAlreadyExists ''invoice''), example_service_present)"
proof -
  have a: "is_dir example_service_present (svc_service_dir invoice_service)"
    by code_simp
  have b: "path_exists example_service_present (service_file invoice_service)"
    by code_simp
  have n: "svc_service_name invoice_service = ''invoice''"
    by code_simp
  from ServiceGenerator_generate_duplicate
         [OF a b, where env = example_env and request_class = "''InvoiceRequestDto''"
            and response_class = "''InvoiceResponseDto''"] a b n
  show ?thesis by simp
qed

text \<open>
  Claim C10. Both generators make their directory, with its parents and tolerating one
  that is there, before they look for the files. Whenever either raises its
  \<^verbatim>\<open>FileExistsError\<close> for an existing DTO or service file, the filesystem it leaves is the
  one \<^verbatim>\<open>mkdir\<close> produced, and the DTO directory, or the service directory, is a directory
  in it. And whenever \<^verbatim>\<open>mkdir\<close> succeeds and a target file exists afterwards, the generator
  raises that \<^verbatim>\<open>FileExistsError\<close> and leaves the filesystem \<^verbatim>\<open>mkdir\<close> produced, with every
  directory \<^verbatim>\<open>mkdir\<close> has made: a failed run can leave a new, empty directory behind.
\<close>

theorem duplicate_error_leaves_directory:
  "(DTOGenerator_generate dg fs = (Inl (FileExistsError, MsgDtosAlreadyExist n), fs') \<longrightarrow>
      mkdir_parents fs (dto_dtos_dir dg) = (Inr (), fs') \<and> is_dir fs' (dto_dtos_dir dg))
   \<and> (ServiceGenerator_generate env sg request_class response_class fs
         = (Inl (FileExistsError, MsgServiceAlreadyExists n), fs') \<longrightarrow>
      mkdir_parents fs (svc_service_dir sg) = (Inr (), fs') \<and> is_dir fs' (svc_service_dir sg))
   \<and> (mkdir_parents fs (dto_dtos_dir dg) = (Inr (), fs1)
        \<and> (path_exists fs1 (request_file dg) \<or> path_exists fs1 (response_file dg)) \<longrightarrow>
      DTOGenerator_generate dg fs
        = (Inl (FileExistsError, MsgDtosAlreadyExist (dto_service_name dg)), fs1))
   \<and> (mkdir_parents fs (svc_service_dir sg) = (Inr (), fs2)
        \<and> path_exists fs2 (service_file sg) \<longrightarrow>
      ServiceGenerator_generate env sg request_class response_class fs
        = (Inl (FileExistsError, MsgServiceAlreadyExists (svc_service_name sg)), fs2))"
proof (intro conjI impI)
  assume "DTOGenerator_generate dg fs = (Inl (FileExistsError, MsgDtosAlreadyExist n), fs')"
  then have m: "mkdir_parents fs (dto_dtos_dir dg) = (Inr (), fs')"
    by (rule DTOGenerator_generate_duplicate_dir)
  then show "mkdir_parents fs (dto_dtos_dir dg) = (Inr (), fs')"
    and "is_dir fs' (dto_dtos_dir dg)"
    by (simp_all add: mkdir_parents_is_dir)
next
  assume "ServiceGenerator_generate env sg request_class response_class fs
         = (Inl (FileExistsError, MsgServiceAlreadyExists n), fs')"
  then have m: "mkdir_parents fs (svc_service_dir sg) = (Inr (), fs')"
    by (rule ServiceGenerator_generate_duplicate_dir)
  then show "mkdir_parents fs (svc_service_dir sg) = (Inr (), fs')"
    and "is_dir fs' (svc_service_dir sg)"
    by (simp_all add: mkdir_parents_is_dir)
next
  assume "mkdir_parents fs (dto_dtos_dir dg) = (Inr (), fs1)
        \<and> (path_exists fs1 (request_file dg) \<or> path_exists fs1 (response_file dg))"
  then show "DTOGenerator_generate dg fs
        = (Inl (FileExistsError, MsgDtosAlreadyExist (dto_service_name dg)), fs1)"
    by (auto simp: DTOGenerator_generate_def)
next
  assume "mkdir_parents fs (svc_service_dir sg) = (Inr (), fs2)
        \<and> path_exists fs2 (service_file sg)"
  then show "ServiceGenerator_generate env sg request_class response_class fs
        = (Inl (FileExistsError, MsgServiceAlreadyExists (svc_service_name sg)), fs2)"
    by (simp add: ServiceGenerator_generate_def)
qed

theorem duplicate_error_leaves_directory_witness:
  "\<not> path_exists example_tmp (dto_dtos_dir tmp_generator)
   \<and> fst (mkdir_parents example_tmp (dto_dtos_dir tmp_generator)) = Inr ()
   \<and> path_exists (snd (mkdir_parents example_tmp (dto_dtos_dir tmp_generator)))
        (request_file tmp_generator)
   \<and> DTOGenerator_generate tmp_generator example_tmp
       = (Inl (FileExistsError, MsgDtosAlreadyExist ''/tmp/x''),
          snd (mkdir_parents example_tmp (dto_dtos_dir tmp_generator)))
   \<and> is_dir (snd (DTOGenerator_generate tmp_generator example_tmp)) (dto_dtos_dir tmp_generator)
   \<and> \<not> path_exists example_tmp (svc_service_dir tmp_service)
   \<and> fst (mkdir_parents example_tmp (svc_service_dir tmp_service)) = Inr ()
   \<and> path_exists (snd (mkdir_parents example_tmp (svc_service_dir tmp_service)))
        (service_file tmp_service)
   \<and> ServiceGenerator_generate example_env tmp_service [] [] example_tmp
       = (Inl (FileExistsError, MsgServiceAlreadyExists ''/tmp/x''),
          snd (mkdir_parents example_tmp (svc_service_dir tmp_service)))
   \<and> is_dir (snd (ServiceGenerator_generate example_env tmp_service [] [] example_tmp))
        (svc_service_dir tmp_service)"
proof -
  let ?md = "mkdir_parents example_tmp (dto_dtos_dir tmp_generator)"
  let ?ms = "mkdir_parents example_tmp (svc_service_dir tmp_service)"
  have a: "\<not> path_exists example_tmp (dto_dtos_dir tmp_generator)"
    by code_simp
  have b: "fst ?md = Inr ()"
    by code_simp
  then have b': "?md = (Inr (), snd ?md)"
    by (simp add: prod_eq_iff)
  have c: "path_exists (snd ?md) (request_file tmp_generator)"
    by code_simp
  have n: "dto_service_name tmp_generator = ''/tmp/x''"
    by code_simp
  from duplicate_error_leaves_directory
         [where dg = tmp_generator and fs = example_tmp and ?fs1.0 = "snd ?md"] b' c
  have "DTOGenerator_generate tmp_generator example_tmp
       = (Inl (FileExistsError, MsgDtosAlreadyExist (dto_service_name tmp_generator)), snd ?md)"
    by blast
  then have d: "DTOGenerator_generate tmp_generator example_tmp
       = (Inl (FileExistsError, MsgDtosAlreadyExist ''/tmp/x''), snd ?md)"
    by (simp only: n)
  from duplicate_error_leaves_directory
         [where dg = tmp_generator and fs = example_tmp and n = "''/tmp/x''"
            and fs' = "snd ?md"] d
  have "is_dir (snd ?md) (dto_dtos_dir tmp_generator)"
    by blast
  with d have e: "is_dir (snd (DTOGenerator_generate tmp_generator example_tmp))
      (dto_dtos_dir tmp_generator)"
    by simp
  have f: "\<not> path_exists example_tmp (svc_service_dir tmp_service)"
    by code_simp
  have g: "fst ?ms = Inr ()"
    by code_simp
  then have g': "?ms = (Inr (), snd ?ms)"
    by (simp add: prod_eq_iff)
  have h: "path_exists (snd ?ms) (service_file tmp_service)"
    by code_simp
  have k: "svc_service_name tmp_service = ''/tmp/x''"
    by code_simp
  from duplicate_error_leaves_directory
         [where sg = tmp_service and fs = example_tmp and ?fs2.0 = "snd ?ms"
            and env = example_env and request_class = "[]" and response_class = "[]"] g' h
  have "ServiceGenerator_generate example_env tmp_service [] [] example_tmp
       = (Inl (FileExistsError, MsgServiceAlreadyExists (svc_service_name tmp_service)),
          snd ?ms)"
    by blast
  then have i: "ServiceGenerator_generate example_env tmp_service [] [] example_tmp
       = (Inl (FileExistsError, MsgServiceAlreadyExists ''/tmp/x''), snd ?ms)"
    by (simp only: k)
  from duplicate_error_leaves_directory
         [where sg = tmp_service and fs = example_tmp and n = "''/tmp/x''"
            and fs' = "snd ?ms" and env = example_env and request_class = "[]"
            and response_class = "[]"] i
  have "is_dir (snd ?ms) (svc_service_dir tmp_service)"
    by blast
  with i have j: "is_dir (snd (ServiceGenerator_generate example_env tmp_service [] []
      example_tmp)) (svc_service_dir tmp_service)"
    by simp
  from a b c d e f g h i j show ?thesis by blast
qed

text \<open>
  Claim C4. When \<open>generate\<close> has written the service file and \<^verbatim>\<open>create_dtos\<close> is true, the
  file is one import line, an empty line and the rendered template: for the shared layer
  the line imports from \<^verbatim>\<open>src.modules.<module>.services.<name>.dtos\<close>, for any other layer
  from \<^verbatim>\<open>src.modules.<module>.dtos.<name>\<close>, with the lower-cased service name, and it names
  the request class and the response class. When \<^verbatim>\<open>create_dtos\<close> is false the file is the
  rendered template alone.
\<close>
theorem ServiceGenerator_generate_import:
  "ServiceGenerator_generate env (ServiceGenerator_init module_path config)
       request_class response_class fs = (Inr u, fs') \<longrightarrow>
     (\<exists>body.
        get_template_content env (ServiceGenerator_init module_path config)
            request_class response_class = Inr body
        \<and> file_content fs' (service_file (ServiceGenerator_init module_path config))
            = Some (if cfg_create_dtos config
                    then (if cfg_type config = ''shared''
                          then ''from src.modules.'' @ cfg_module config @ ''.services.''
                                 @ py_lower (cfg_name config) @ ''.dtos import ''
                                 @ request_class @ '', '' @ response_class
                          else ''from src.modules.'' @ cfg_module config @ ''.dtos.''
                                 @ py_lower (cfg_name config) @ '' import ''
                                 @ request_class @ '', '' @ response_class)
                         @ ''\<newline>\<newline>'' @ body
                    else body))"
proof
  assume "ServiceGenerator_generate env (ServiceGenerator_init module_path config)
       request_class response_class fs = (Inr u, fs')"
  from ServiceGenerator_generate_Inr [OF this]
  show "\<exists>body.
        get_template_content env (ServiceGenerator_init module_path config)
            request_class response_class = Inr body
        \<and> file_content fs' (service_file (ServiceGenerator_init module_path config))
            = Some (if cfg_create_dtos config
                    then (if cfg_type config = ''shared''
                          then ''from src.modules.'' @ cfg_module config @ ''.services.''
                                 @ py_lower (cfg_name config) @ ''.dtos import ''
                                 @ request_class @ '', '' @ response_class
                          else ''from src.modules.'' @ cfg_module config @ ''.dtos.''
                                 @ py_lower (cfg_name config) @ '' import ''
                                 @ request_class @ '', '' @ response_class)
                         @ ''\<newline>\<newline>'' @ body
                    else body)"
    unfolding import_line_init svc_config_init .
qed

theorem ServiceGenerator_generate_import_witness:
  "fst (ServiceGenerator_generate example_env (ServiceGenerator_init billing_path order_config)
          ''OrderRequestDto'' ''OrderResponseDto'' example_modules) = Inr ()
   \<and> file_content
        (snd (ServiceGenerator_generate example_env
                (ServiceGenerator_init billing_path order_config)
                ''OrderRequestDto'' ''OrderResponseDto'' example_modules))
        (Path ''src/modules/billing/services/domain/order_service.py'')
       = Some (''from src.modules.billing.dtos.order import OrderRequestDto, OrderResponseDto''
               @ ''\<newline>\<newline>''
               @ ''class OrderService: OrderRequestDto -> OrderResponseDto\<newline>'')
   \<and> fst (ServiceGenerator_generate example_env
            (ServiceGenerator_init billing_path (order_config \<lparr> cfg_create_dtos := False \<rparr>))
            [] [] example_modules) = Inr ()
   \<and> file_content
        (snd (ServiceGenerator_generate example_env
                (ServiceGenerator_init billing_path (order_config \<lparr> cfg_create_dtos := False \<rparr>))
                [] [] example_modules))
        (Path ''src/modules/billing/services/domain/order_service.py'')
       = Some ''class OrderService: None -> None\<newline>''"
proof -
  let ?g = "ServiceGenerator_init billing_path order_config"
  let ?h = "ServiceGenerator_init billing_path (order_config \<lparr> cfg_create_dtos := False \<rparr>)"
  let ?r = "ServiceGenerator_generate example_env ?g ''OrderRequestDto'' ''OrderResponseDto''
              example_modules"
  let ?q = "ServiceGenerator_generate example_env ?h [] [] example_modules"
  have a: "fst ?r = Inr ()" by code_simp
  then have a': "?r = (Inr (), snd ?r)" by (simp add: prod_eq_iff)
  have b: "fst ?q = Inr ()" by code_simp
  then have b': "?q = (Inr (), snd ?q)" by (simp add: prod_eq_iff)
  have f: "service_file ?g = Path ''src/modules/billing/services/domain/order_service.py''"
          "service_file ?h = Path ''src/modules/billing/services/domain/order_service.py''"
    by code_simp+
  have t: "get_template_content example_env ?g ''OrderRequestDto'' ''OrderResponseDto''
             = Inr ''class OrderService: OrderRequestDto -> OrderResponseDto\<newline>''"
          "get_template_content example_env ?h [] []
             = Inr ''class OrderService: None -> None\<newline>''"
    by code_simp+
  have c: "cfg_create_dtos order_config" "cfg_type order_config \<noteq> ''shared''"
          "cfg_module order_config = ''billing''" "py_lower (cfg_name order_config) = ''order''"
    by code_simp+
  from ServiceGenerator_generate_import
         [of example_env billing_path order_config "''OrderRequestDto''" "''OrderResponseDto''"
             example_modules "()" "snd ?r"] a' t(1) c
  have x: "file_content (snd ?r) (service_file ?g)
       = Some (''from src.modules.billing.dtos.order import OrderRequestDto, OrderResponseDto''
               @ ''\<newline>\<newline>''
               @ ''class OrderService: OrderRequestDto -> OrderResponseDto\<newline>'')"
    by simp
  from ServiceGenerator_generate_import
         [of example_env billing_path "order_config \<lparr> cfg_create_dtos := False \<rparr>" "[]" "[]"
             example_modules "()" "snd ?q"] b' t(2)
  have y: "file_content (snd ?q) (service_file ?h) = Some ''class OrderService: None -> None\<newline>''"
    by simp
  from a b x y f show ?thesis by simp
qed

section \<open>The command\<close>

text \<open>
  Claim C6. When a step of \<open>generate_service\<close> raises, the command goes straight to its
  handler with the filesystem as that step left it: no later step runs and nothing is
  undone. In particular, when \<open>DTOGenerator_generate\<close> succeeds and
  \<open>ServiceGenerator_generate\<close> then raises, the three DTO files hold what the DTO generator
  wrote, and no file differs from the state the DTO generator left.
\<close>
theorem generate_service_no_rollback:
  "generate_service env (Inl e) fs = handle_exc e [] fs
   \<and> (cfg_create_dtos config
        \<and> DTOGenerator_generate (dto_generator_for config) fs = (Inl e, fs1) \<longrightarrow>
      generate_service env (Inr config) fs = handle_exc e [] fs1)
   \<and> (cfg_create_dtos config
        \<and> DTOGenerator_generate (dto_generator_for config) fs = (Inr (rq, rs), fs1)
        \<and> ServiceGenerator_generate env (service_generator_for config) rq rs fs1 = (Inl e, fs2)
      \<longrightarrow>
      generate_service env (Inr config) fs
        = handle_exc e [DtosCreated (dto_dtos_dir (dto_generator_for config))] fs2
      \<and> file_content fs2 (request_file (dto_generator_for config))
          = Some (class_stub (dto_request_class_name (dto_generator_for config)))
      \<and> file_content fs2 (response_file (dto_generator_for config))
          = Some (class_stub (dto_response_class_name (dto_generator_for config)))
      \<and> file_content fs2 (init_file (dto_generator_for config))
          = Some (init_content (dto_generator_for config))
      \<and> (\<forall>q. file_content fs2 q = file_content fs1 q))
   \<and> snd (handle_exc e out fs2) = fs2"
proof (intro conjI impI allI)
  show "generate_service env (Inl e) fs = handle_exc e [] fs"
    by (simp add: generate_service_def)
next
  assume "cfg_create_dtos config
        \<and> DTOGenerator_generate (dto_generator_for config) fs = (Inl e, fs1)"
  then show "generate_service env (Inr config) fs = handle_exc e [] fs1"
    by (simp add: generate_service_dto_fails)
next
  show "snd (handle_exc e out fs2) = fs2" by (rule snd_handle_exc)
next
  assume a: "cfg_create_dtos config
        \<and> DTOGenerator_generate (dto_generator_for config) fs = (Inr (rq, rs), fs1)
        \<and> ServiceGenerator_generate env (service_generator_for config) rq rs fs1 = (Inl e, fs2)"
  then have d: "DTOGenerator_generate (dto_generator_for config) fs = (Inr (rq, rs), fs1)"
    and s: "ServiceGenerator_generate env (service_generator_for config) rq rs fs1 = (Inl e, fs2)"
    by simp_all
  from s have o: "only_dirs_added fs1 fs2"
    by (rule ServiceGenerator_generate_Inl)
  show "generate_service env (Inr config) fs
        = handle_exc e [DtosCreated (dto_dtos_dir (dto_generator_for config))] fs2"
    using a by (simp add: generate_service_service_fails)
  show "file_content fs2 (request_file (dto_generator_for config))
          = Some (class_stub (dto_request_class_name (dto_generator_for config)))"
    by (simp add: only_dirs_added_file_content [OF o] DTOGenerator_generate_Inr(4) [OF d])
  show "file_content fs2 (response_file (dto_generator_for config))
          = Some (class_stub (dto_response_class_name (dto_generator_for config)))"
    by (simp add: only_dirs_added_file_content [OF o] DTOGenerator_generate_Inr(5) [OF d])
  show "file_content fs2 (init_file (dto_generator_for config))
          = Some (init_content (dto_generator_for config))"
    by (simp add: only_dirs_added_file_content [OF o] DTOGenerator_generate_Inr(6) [OF d])
  show "file_content fs2 q = file_content fs1 q" for q
    by (rule only_dirs_added_file_content [OF o])
qed

theorem generate_service_no_rollback_witness:
  "cfg_create_dtos invoice_config
   \<and> fst (DTOGenerator_generate (dto_generator_for invoice_config) example_service_present)
       = Inr (''InvoiceRequestDto'', ''InvoiceResponseDto'')
   \<and> fst (ServiceGenerator_generate example_env (service_generator_for invoice_config)
            ''InvoiceRequestDto'' ''InvoiceResponseDto''
            (snd (DTOGenerator_generate (dto_generator_for invoice_config)
                    example_service_present)))
       = Inl (FileExistsError, MsgServiceAlreadyExists ''invoice'')
   \<and> fst (generate_service example_env (Inr invoice_config) example_service_present)
       = (None, [DtosCreated (Path ''src/modules/billing/dtos/invoice''),
                 ErrorPrinted (FileExistsError, MsgServiceAlreadyExists ''invoice'')])
   \<and> file_content (snd (generate_service example_env (Inr invoice_config)
                           example_service_present))
        (Path ''src/modules/billing/dtos/invoice/invoice_request_dto.py'')
       = Some ''class InvoiceRequestDto:\<newline>    pass\<newline>''
   \<and> cfg_create_dtos checkout_config
   \<and> fst (DTOGenerator_generate (dto_generator_for checkout_config) example_response_only)
       = Inl (FileExistsError, MsgDtosAlreadyExist ''checkout'')
   \<and> generate_service example_env (Inr checkout_config) example_response_only
       = ((None, [ErrorPrinted (FileExistsError, MsgDtosAlreadyExist ''checkout'')]),
          example_response_only)"
proof -
  let ?dg = "dto_generator_for invoice_config"
  let ?sg = "service_generator_for invoice_config"
  let ?d = "DTOGenerator_generate ?dg example_service_present"
  let ?s = "ServiceGenerator_generate example_env ?sg ''InvoiceRequestDto''
              ''InvoiceResponseDto'' (snd ?d)"
  let ?e = "(FileExistsError, MsgServiceAlreadyExists ''invoice'')"
  have c: "cfg_create_dtos invoice_config" by code_simp
  have d: "fst ?d = Inr (''InvoiceRequestDto'', ''InvoiceResponseDto'')" by code_simp
  then have d': "?d = (Inr (''InvoiceRequestDto'', ''InvoiceResponseDto''), snd ?d)"
    by (simp add: prod_eq_iff)
  have s: "fst ?s = Inl ?e" by code_simp
  then have s': "?s = (Inl ?e, snd ?s)" by (simp add: prod_eq_iff)
  have n: "dto_dtos_dir ?dg = Path ''src/modules/billing/dtos/invoice''"
    "request_file ?dg = Path ''src/modules/billing/dtos/invoice/invoice_request_dto.py''"
    "class_stub (dto_request_class_name ?dg) = ''class InvoiceRequestDto:\<newline>    pass\<newline>''"
    by code_simp+
  have h: "handle_exc ?e [DtosCreated (Path ''src/modules/billing/dtos/invoice'')] (snd ?s)
      = ((None, [DtosCreated (Path ''src/modules/billing/dtos/invoice''), ErrorPrinted ?e]),
         snd ?s)"
    by (simp add: handle_exc_def caught_def)
  from generate_service_no_rollback
         [where env = example_env and e = "?e" and fs = example_service_present
            and config = invoice_config and ?fs1.0 = "snd ?d"
            and rq = "''InvoiceRequestDto''" and rs = "''InvoiceResponseDto''"
            and ?fs2.0 = "snd ?s" and out = "[]"] c d' s'
  have r: "generate_service example_env (Inr invoice_config) example_service_present
        = handle_exc ?e [DtosCreated (dto_dtos_dir ?dg)] (snd ?s)"
    and f: "file_content (snd ?s) (request_file ?dg)
          = Some (class_stub (dto_request_class_name ?dg))"
    by blast+
  let ?c = "DTOGenerator_generate (dto_generator_for checkout_config) example_response_only"
  let ?x = "(FileExistsError, MsgDtosAlreadyExist ''checkout'')"
  have c2: "cfg_create_dtos checkout_config" by code_simp
  have "?c = (Inl ?x, example_response_only)" by code_simp
  then have k: "?c = (Inl ?x, example_response_only)" and k': "fst ?c = Inl ?x"
    by simp_all
  from generate_service_no_rollback
         [where env = example_env and e = "?x" and fs = example_response_only
            and config = checkout_config and ?fs1.0 = example_response_only
            and out = "[]"] c2 k
  have r2: "generate_service example_env (Inr checkout_config) example_response_only
          = handle_exc ?x [] example_response_only"
    by blast
  have h2: "handle_exc ?x [] example_response_only
      = ((None, [ErrorPrinted ?x]), example_response_only)"
    by (simp add: handle_exc_def caught_def)
  from r n(1) h have r': "fst (generate_service example_env (Inr invoice_config)
        example_service_present)
       = (None, [DtosCreated (Path ''src/modules/billing/dtos/invoice''), ErrorPrinted ?e])"
    and r'': "snd (generate_service example_env (Inr invoice_config) example_service_present)
       = snd ?s"
    by simp_all
  from f n(2,3) r'' have f': "file_content (snd (generate_service example_env
        (Inr invoice_config) example_service_present))
        (Path ''src/modules/billing/dtos/invoice/invoice_request_dto.py'')
       = Some ''class InvoiceRequestDto:\<newline>    pass\<newline>''"
    by simp
  from r2 h2 have r3: "generate_service example_env (Inr checkout_config) example_response_only
       = ((None, [ErrorPrinted ?x]), example_response_only)"
    by simp
  from c d s r' f' c2 k' r3 show ?thesis by blast
qed

end
